theory Spec2Isabelle
  imports Complex_Main "HOL-Library.AList"
begin

section \<open>Tables\<close>

text \<open>
  The script \<^verbatim>\<open>prepare_datasets.py\<close> works on pandas data frames. A cell is what
  \<^verbatim>\<open>read_csv\<close> leaves in a frame: a number, a boolean, a string, or the missing
  value. A number is kept by value; how the numbers of a column are stored (\<^verbatim>\<open>int64\<close>,
  \<^verbatim>\<open>uint64\<close>, \<^verbatim>\<open>float64\<close>) is the dtype of the column, and a column that pandas could
  fit into none of them (an integer beyond 64 bits, text) has the dtype \<^verbatim>\<open>object\<close>.
  A frame is its header, the dtype of each column as pandas determined it, its row
  labels and its rows. A frame of pandas is rectangular (\<open>rectangular\<close>) and has one
  dtype for each column (\<open>typed\<close>).
\<close>

datatype cell = NumV rat | BoolV bool | StrV string | NaN

datatype dtype = Int64 | UInt64 | Float64 | Boolean | Object

record dataframe =
  columns :: "string list"
  dtypes :: "dtype list"
  index :: "nat list"
  rows :: "cell list list"

definition rectangular :: "dataframe \<Rightarrow> bool" where
  "rectangular df =
     (list_all (\<lambda>r. length r = length (columns df)) (rows df)
      \<and> length (index df) = length (rows df))"

definition typed :: "dataframe \<Rightarrow> bool" where
  "typed df = (length (dtypes df) = length (columns df))"

text \<open>The exceptions of the model. \<open>OSError\<close> stands for \<^verbatim>\<open>OSError\<close> and its subclasses
  (\<^verbatim>\<open>FileNotFoundError\<close>, \<^verbatim>\<open>IsADirectoryError\<close>, \<^verbatim>\<open>NotADirectoryError\<close>,
  \<^verbatim>\<open>FileExistsError\<close>, \<^verbatim>\<open>PermissionError\<close>).\<close>

datatype exn =
  ValueError | KeyError | InvalidIndexError | OSError
  | ParserError | EmptyDataError | UnicodeDecodeError

subsection \<open>What the script takes from its libraries\<close>

text \<open>
  The repository holds no code of pandas or of the standard library. The script is
  modelled for any library that gives: \<^verbatim>\<open>pd.read_csv\<close> (\<open>Infer\<close> is the call with
  the header in the file, \<open>Names ns\<close> the call \<^verbatim>\<open>read_csv(f, header=None, names=ns)\<close>)
  and \<^verbatim>\<open>DataFrame.to_csv(index=False)\<close> on the content of a file; the dtype that
  \<^verbatim>\<open>pd.concat\<close> gives a merged column, from the part of each frame (its dtype and
  cells, or the number of rows of a frame without the column), and the conversion of
  a cell from the dtype of its frame to the dtype of the merged column; and
  \<^verbatim>\<open>fnmatch\<close> of a name against a pattern that holds a character class.
\<close>

datatype header = Infer | Names "string list"

type_synonym series = "dtype \<times> cell list"

type_synonym part = "series + nat"

record 'c library =
  read_csv :: "header \<Rightarrow> 'c \<Rightarrow> exn + dataframe"
  to_csv :: "dataframe \<Rightarrow> 'c"
  result_dtype :: "part list \<Rightarrow> dtype"
  astype :: "dtype \<Rightarrow> dtype \<Rightarrow> cell \<Rightarrow> cell"
  fnmatch_class :: "string \<Rightarrow> string \<Rightarrow> bool"

subsection \<open>The pandas operations the script calls\<close>

text \<open>The dtype at a position of a list of dtypes and of a frame (\<^verbatim>\<open>object\<close> where
  the list ends), the positions of a name in a header, and the cells of a column.\<close>

definition dtype_in :: "dtype list \<Rightarrow> nat \<Rightarrow> dtype" where
  "dtype_in ds j = (if j < length ds then ds ! j else Object)"

definition dtype_at :: "dataframe \<Rightarrow> nat \<Rightarrow> dtype" where
  "dtype_at df j = dtype_in (dtypes df) j"

definition positions :: "string \<Rightarrow> string list \<Rightarrow> nat list" where
  "positions name cols = filter (\<lambda>j. cols ! j = name) [0..<length cols]"

definition column_values :: "dataframe \<Rightarrow> nat \<Rightarrow> cell list" where
  "column_values df j = map (\<lambda>r. r ! j) (rows df)"

text \<open>\<^verbatim>\<open>df.rename(columns={old: new}, inplace=True)\<close>: every column named \<open>old\<close> is
  renamed, the dtypes and the cells stay.\<close>

definition rename_columns :: "string \<Rightarrow> string \<Rightarrow> dataframe \<Rightarrow> dataframe" where
  "rename_columns old new df =
     df\<lparr>columns := map (\<lambda>c. if c = old then new else c) (columns df)\<rparr>"

text \<open>The union of the headers, each name at its first appearance.\<close>

definition union_columns :: "dataframe list \<Rightarrow> string list" where
  "union_columns dfs = rev (remdups (rev (concat (map columns dfs))))"

text \<open>The part of a frame in a merged column: by position when all frames have one
  header, by name otherwise.\<close>

definition column_part :: "dataframe \<Rightarrow> nat \<Rightarrow> part" where
  "column_part df j = Inl (dtype_at df j, column_values df j)"

definition named_part :: "dataframe \<Rightarrow> string \<Rightarrow> part" where
  "named_part df c =
     (case positions c (columns df) of
        [] \<Rightarrow> Inr (length (rows df))
      | j # _ \<Rightarrow> Inl (dtype_at df j, column_values df j))"

text \<open>A row of a frame in the merged frame whose columns have the dtypes \<open>res\<close>:
  position by position when all frames have one header (\<open>convert_row\<close>); under the
  union header \<open>cs\<close> otherwise (\<open>reindex_row\<close>), where a column the frame does not
  have is filled with the missing value. Each cell is converted by the library from
  the dtype of its column to the dtype of the merged column.\<close>

definition convert_row :: "'c library \<Rightarrow> dataframe \<Rightarrow> dtype list \<Rightarrow> cell list \<Rightarrow> cell list" where
  "convert_row lib df res r =
     map (\<lambda>j. astype lib (dtype_at df j) (dtype_in res j) (r ! j)) [0..<length r]"

definition reindex_row ::
  "'c library \<Rightarrow> dataframe \<Rightarrow> string list \<Rightarrow> dtype list \<Rightarrow> cell list \<Rightarrow> cell list" where
  "reindex_row lib df cs res r =
     map (\<lambda>k. case positions (cs ! k) (columns df) of
                 [] \<Rightarrow> NaN
               | j # _ \<Rightarrow> astype lib (dtype_at df j) (dtype_in res k) (r ! j))
       [0..<length cs]"

text \<open>
  \<^verbatim>\<open>pd.concat(frames, ignore_index=True)\<close>: no frame raises \<^verbatim>\<open>ValueError\<close>; frames
  with one header are stacked under it; frames with different headers are laid out
  under the union of their headers (pandas refuses that when a header repeats a name);
  the rows are labelled \<open>0, 1, 2, \<dots>\<close> anew.
\<close>

definition pd_concat :: "'c library \<Rightarrow> dataframe list \<Rightarrow> exn + dataframe" where
  "pd_concat lib dfs =
     (if dfs = [] then Inl ValueError
      else if list_all (\<lambda>df. columns df = columns (hd dfs)) dfs then
        (let cs = columns (hd dfs);
             res = map (\<lambda>j. result_dtype lib (map (\<lambda>df. column_part df j) dfs)) [0..<length cs];
             rs = concat (map (\<lambda>df. map (convert_row lib df res) (rows df)) dfs)
         in Inr \<lparr>columns = cs, dtypes = res, index = [0..<length rs], rows = rs\<rparr>)
      else if list_ex (\<lambda>df. \<not> distinct (columns df)) dfs then Inl InvalidIndexError
      else
        (let cs = union_columns dfs;
             res = map (\<lambda>c. result_dtype lib (map (\<lambda>df. named_part df c) dfs)) cs;
             rs = concat (map (\<lambda>df. map (reindex_row lib df cs res) (rows df)) dfs)
         in Inr \<lparr>columns = cs, dtypes = res, index = [0..<length rs], rows = rs\<rparr>))"

text \<open>
  \<^verbatim>\<open>df[name]\<close> as the series \<^verbatim>\<open>.apply\<close> maps a scalar function over: a missing name
  raises \<^verbatim>\<open>KeyError\<close>; a repeated name gives a frame, on whose columns the script's
  lambda raises \<^verbatim>\<open>ValueError\<close>.
\<close>

definition getitem :: "dataframe \<Rightarrow> string \<Rightarrow> exn + series" where
  "getitem df name =
     (case positions name (columns df) of
        [] \<Rightarrow> Inl KeyError
      | [j] \<Rightarrow> Inr (dtype_at df j, column_values df j)
      | _ \<Rightarrow> Inl ValueError)"

text \<open>\<^verbatim>\<open>series.apply(f)\<close> for an \<open>f\<close> that returns the Python integers \<open>0\<close> and
  \<open>1\<close>: the results make an \<^verbatim>\<open>int64\<close> series; a series without cells comes back
  empty with its own dtype.\<close>

definition apply_int :: "(cell \<Rightarrow> cell) \<Rightarrow> series \<Rightarrow> series" where
  "apply_int f s = (if snd s = [] then fst s else Int64, map f (snd s))"

text \<open>\<^verbatim>\<open>df[name] = series\<close>: a new name is appended as the last column, an existing
  one has its dtype and cells replaced.\<close>

definition setitem :: "dataframe \<Rightarrow> string \<Rightarrow> series \<Rightarrow> dataframe" where
  "setitem df name s =
     (if name \<in> set (columns df) then
        df\<lparr>dtypes := map2 (\<lambda>c t. if c = name then fst s else t) (columns df) (dtypes df),
           rows := map2 (\<lambda>r v. map2 (\<lambda>c x. if c = name then v else x) (columns df) r)
                        (rows df) (snd s)\<rparr>
      else
        df\<lparr>columns := columns df @ [name], dtypes := dtypes df @ [fst s],
           rows := map2 (\<lambda>r v. r @ [v]) (rows df) (snd s)\<rparr>)"

text \<open>\<^verbatim>\<open>np.number\<close> covers the integer and floating dtypes, not \<^verbatim>\<open>bool\<close> and not
  \<^verbatim>\<open>object\<close>; \<^verbatim>\<open>df.select_dtypes(include=np.number).columns.tolist()\<close> is the names
  of the columns of such a dtype, in the order of the header.\<close>

fun is_number :: "dtype \<Rightarrow> bool" where
  "is_number Int64 = True"
| "is_number UInt64 = True"
| "is_number Float64 = True"
| "is_number Boolean = False"
| "is_number Object = False"

definition select_dtypes_number :: "dataframe \<Rightarrow> string list" where
  "select_dtypes_number df =
     map fst (filter (\<lambda>(c, t). is_number t) (zip (columns df) (dtypes df)))"

text \<open>\<^verbatim>\<open>df[keys]\<close> with a list of names: the columns of each key in the order of the
  keys, a key as often as the list holds it; a key that is no column raises
  \<^verbatim>\<open>KeyError\<close>.\<close>

definition getitem_list :: "dataframe \<Rightarrow> string list \<Rightarrow> exn + dataframe" where
  "getitem_list df keys =
     (if list_all (\<lambda>k. k \<in> set (columns df)) keys then
        (let js = concat (map (\<lambda>k. positions k (columns df)) keys)
         in Inr \<lparr>columns = map (\<lambda>j. columns df ! j) js, dtypes = map (dtype_at df) js,
                 index = index df, rows = map (\<lambda>r. map (\<lambda>j. r ! j) js) (rows df)\<rparr>)
      else Inl KeyError)"

subsection \<open>The three transformations\<close>

text \<open>\<^verbatim>\<open>process_nab_folder\<close>, lines 52 to 53.\<close>

definition nab_rule :: "dataframe \<Rightarrow> dataframe" where
  "nab_rule df =
     (if ''label'' \<in> set (columns df) then rename_columns ''label'' ''is_anomaly'' df
      else df)"

text \<open>\<^verbatim>\<open>process_yahoo_folder\<close>, lines 75 to 77, on the frames read from the files.\<close>

definition yahoo_rule :: "'c library \<Rightarrow> dataframe list \<Rightarrow> exn + dataframe" where
  "yahoo_rule lib dfs =
     (case pd_concat lib dfs of
        Inl e \<Rightarrow> Inl e
      | Inr combined_df \<Rightarrow>
          Inr (if ''anomaly'' \<in> set (columns combined_df)
               then rename_columns ''anomaly'' ''is_anomaly'' combined_df
               else combined_df))"

text \<open>\<^verbatim>\<open>process_kdd_folder\<close>, lines 95 to 105: the fixed schema.\<close>

definition column_names :: "string list" where
  "column_names =
    [''duration'', ''protocol_type'', ''service'', ''flag'', ''src_bytes'', ''dst_bytes'', ''land'',
     ''wrong_fragment'', ''urgent'', ''hot'', ''num_failed_logins'', ''logged_in'', ''num_compromised'',
     ''root_shell'', ''su_attempted'', ''num_root'', ''num_file_creations'', ''num_shells'',
     ''num_access_files'', ''num_outbound_cmds'', ''is_host_login'', ''is_guest_login'', ''count'',
     ''srv_count'', ''serror_rate'', ''srv_serror_rate'', ''rerror_rate'', ''srv_rerror_rate'',
     ''same_srv_rate'', ''diff_srv_rate'', ''srv_diff_host_rate'', ''dst_host_count'',
     ''dst_host_srv_count'', ''dst_host_same_srv_rate'', ''dst_host_diff_srv_rate'',
     ''dst_host_same_src_port_rate'', ''dst_host_srv_diff_host_rate'', ''dst_host_serror_rate'',
     ''dst_host_srv_serror_rate'', ''dst_host_rerror_rate'', ''dst_host_srv_rerror_rate'', ''label'']"

text \<open>Line 108: the lambda \<^verbatim>\<open>0 if x == 'normal.' else 1\<close>. A cell that is no string
  is not equal to the string.\<close>

definition binary_label :: "cell \<Rightarrow> cell" where
  "binary_label x = (if x = StrV ''normal.'' then NumV 0 else NumV 1)"

text \<open>\<^verbatim>\<open>process_kdd_folder\<close>, lines 108 to 112, on the frame read with the schema.\<close>

definition kdd_rule :: "dataframe \<Rightarrow> exn + dataframe" where
  "kdd_rule df =
     (case getitem df ''label'' of
        Inl e \<Rightarrow> Inl e
      | Inr labels \<Rightarrow>
          (let df1 = setitem df ''is_anomaly'' (apply_int binary_label labels);
               numeric_cols = select_dtypes_number df1
           in getitem_list df1 (numeric_cols @ [''is_anomaly''])))"

section \<open>The file system\<close>

text \<open>
  The file system from its root: a file with its content, or a directory with its
  entries in the order the operating system lists them. A path is the list of names
  from the root. The content of a file is left open (\<open>'c\<close>): the library reads and
  writes it.
\<close>

datatype 'c node = File 'c | Dir "(string \<times> 'c node) list"

type_synonym path = "string list"

fun lookup :: "'c node \<Rightarrow> path \<Rightarrow> 'c node option" where
  "lookup n [] = Some n"
| "lookup (File c) (x # p) = None"
| "lookup (Dir es) (x # p) = (case map_of es x of None \<Rightarrow> None | Some d \<Rightarrow> lookup d p)"

definition os_path_exists :: "'c node \<Rightarrow> path \<Rightarrow> bool" where
  "os_path_exists fs p = (lookup fs p \<noteq> None)"

fun is_dir :: "'c node \<Rightarrow> bool" where
  "is_dir (Dir es) = True"
| "is_dir (File c) = False"

definition os_path_isdir :: "'c node \<Rightarrow> path \<Rightarrow> bool" where
  "os_path_isdir fs p = (case lookup fs p of None \<Rightarrow> False | Some n \<Rightarrow> is_dir n)"

text \<open>
  \<^verbatim>\<open>os.walk(top)\<close>, top down: a directory gives its own triple (path, names of the
  subdirectories, names of the files) and then the triples of its subdirectories in
  listing order; a top that is no directory gives nothing.
\<close>

fun os_walk :: "path \<Rightarrow> 'c node \<Rightarrow> (path \<times> string list \<times> string list) list"
  and walk_entries :: "path \<Rightarrow> (string \<times> 'c node) list \<Rightarrow> (path \<times> string list \<times> string list) list"
  where
  "os_walk dirpath (File c) = []"
| "os_walk dirpath (Dir es) =
     (dirpath, map fst (filter (\<lambda>e. is_dir (snd e)) es), map fst (filter (\<lambda>e. \<not> is_dir (snd e)) es))
       # walk_entries dirpath es"
| "walk_entries dirpath [] = []"
| "walk_entries dirpath ((name, d) # es) = os_walk (dirpath @ [name]) d @ walk_entries dirpath es"

definition walk :: "'c node \<Rightarrow> path \<Rightarrow> (path \<times> string list \<times> string list) list" where
  "walk fs dirpath = (case lookup fs dirpath of None \<Rightarrow> [] | Some n \<Rightarrow> os_walk dirpath n)"

subsection \<open>\<^verbatim>\<open>glob.glob\<close>\<close>

text \<open>
  \<^verbatim>\<open>glob.glob(pathname)\<close> reads every component of the path name as a pattern, the
  components of the directory too. A component with none of \<^verbatim>\<open>*\<close>, \<^verbatim>\<open>?\<close>, \<^verbatim>\<open>[\<close> stands
  for the entry of that name. Any other component stands for the entries whose names
  match it by \<^verbatim>\<open>fnmatch\<close>, except that a name with a leading dot is matched only by a
  pattern with a leading dot. \<^verbatim>\<open>*\<close> matches any characters, \<^verbatim>\<open>?\<close> any one
  character; a pattern with \<^verbatim>\<open>[\<close> is left to the library. Only a directory is
  searched for the components that follow. The paths come in listing order.
\<close>

definition has_magic :: "string \<Rightarrow> bool" where
  "has_magic s = list_ex (\<lambda>c. c = CHR ''*'' \<or> c = CHR ''?'' \<or> c = CHR ''['') s"

fun wildcard :: "string \<Rightarrow> string \<Rightarrow> bool" where
  "wildcard [] [] = True"
| "wildcard [] (c # cs) = False"
| "wildcard (p # ps) [] = (p = CHR ''*'' \<and> wildcard ps [])"
| "wildcard (p # ps) (c # cs) =
     (if p = CHR ''*'' then wildcard ps (c # cs) \<or> wildcard (p # ps) cs
      else (p = CHR ''?'' \<or> p = c) \<and> wildcard ps cs)"

definition fnmatch :: "'c library \<Rightarrow> string \<Rightarrow> string \<Rightarrow> bool" where
  "fnmatch lib name pat =
     (if CHR ''['' \<in> set pat then fnmatch_class lib name pat else wildcard pat name)"

definition ishidden :: "string \<Rightarrow> bool" where
  "ishidden s = (case s of [] \<Rightarrow> False | c # _ \<Rightarrow> c = CHR ''.'')"

definition component_match :: "'c library \<Rightarrow> string \<Rightarrow> string \<Rightarrow> bool" where
  "component_match lib pat name =
     (if has_magic pat then (ishidden pat \<or> \<not> ishidden name) \<and> fnmatch lib name pat
      else name = pat)"

fun glob_node :: "'c library \<Rightarrow> 'c node \<Rightarrow> string list \<Rightarrow> path list"
  and glob_entries :: "'c library \<Rightarrow> (string \<times> 'c node) list \<Rightarrow> string \<Rightarrow> string list \<Rightarrow> path list"
  where
  "glob_node lib n [] = [[]]"
| "glob_node lib (File c) (pat # pats) = []"
| "glob_node lib (Dir es) (pat # pats) = glob_entries lib es pat pats"
| "glob_entries lib [] pat pats = []"
| "glob_entries lib ((name, d) # es) pat pats =
     (if component_match lib pat name then map ((#) name) (glob_node lib d pats) else [])
       @ glob_entries lib es pat pats"

definition glob_glob :: "'c library \<Rightarrow> 'c node \<Rightarrow> path \<Rightarrow> path list" where
  "glob_glob lib fs pathname = glob_node lib fs pathname"

subsection \<open>Writing\<close>

text \<open>
  Writing a file: the parent directory must exist and the path must not be a directory
  (else the write raises, \<open>None\<close>); an existing file is overwritten in place, a new
  one is listed last.
\<close>

fun write_file :: "'c node \<Rightarrow> path \<Rightarrow> 'c \<Rightarrow> 'c node option" where
  "write_file n [] c = None"
| "write_file (File c') (x # p) c = None"
| "write_file (Dir es) [x] c =
     (case map_of es x of
        Some (Dir ds) \<Rightarrow> None
      | _ \<Rightarrow> Some (Dir (AList.update x (File c) es)))"
| "write_file (Dir es) (x # y # p) c =
     (case map_of es x of
        None \<Rightarrow> None
      | Some d \<Rightarrow>
          (case write_file d (y # p) c of
             None \<Rightarrow> None
           | Some d' \<Rightarrow> Some (Dir (AList.update x d' es))))"

text \<open>\<^verbatim>\<open>os.makedirs(path, exist_ok=True)\<close>: the directories of the path that are not
  there are made; \<open>None\<close> when a file is in the way.\<close>

fun makedirs :: "'c node \<Rightarrow> path \<Rightarrow> 'c node option" where
  "makedirs (File c) p = None"
| "makedirs (Dir es) [] = Some (Dir es)"
| "makedirs (Dir es) (x # p) =
     (case makedirs (case map_of es x of None \<Rightarrow> Dir [] | Some d \<Rightarrow> d) p of
        None \<Rightarrow> None
      | Some d' \<Rightarrow> Some (Dir (AList.update x d' es)))"

subsection \<open>Reading and writing frames\<close>

text \<open>\<^verbatim>\<open>pd.read_csv(path)\<close> raises an \<^verbatim>\<open>OSError\<close> when the path is no file, and
  \<^verbatim>\<open>df.to_csv(path, index=False)\<close> when the file cannot be written.\<close>

definition pd_read_csv :: "'c library \<Rightarrow> header \<Rightarrow> 'c node \<Rightarrow> path \<Rightarrow> exn + dataframe" where
  "pd_read_csv lib h fs p =
     (case lookup fs p of
        None \<Rightarrow> Inl OSError
      | Some (Dir es) \<Rightarrow> Inl OSError
      | Some (File c) \<Rightarrow> read_csv lib h c)"

definition df_to_csv :: "'c library \<Rightarrow> dataframe \<Rightarrow> path \<Rightarrow> 'c node \<Rightarrow> exn + 'c node" where
  "df_to_csv lib df p fs =
     (case write_file fs p (to_csv lib df) of None \<Rightarrow> Inl OSError | Some fs' \<Rightarrow> Inr fs')"

text \<open>The list comprehension of line 75: the files are read in order, the first
  exception ends it.\<close>

fun read_all :: "'c library \<Rightarrow> 'c node \<Rightarrow> path list \<Rightarrow> exn + dataframe list" where
  "read_all lib fs [] = Inr []"
| "read_all lib fs (f # file_paths) =
     (case pd_read_csv lib Infer fs f of
        Inl e \<Rightarrow> Inl e
      | Inr df \<Rightarrow>
          (case read_all lib fs file_paths of
             Inl e \<Rightarrow> Inl e
           | Inr dfs \<Rightarrow> Inr (df # dfs)))"

section \<open>The three pipelines and \<^verbatim>\<open>main\<close>\<close>

text \<open>
  A log record is its level and the pieces of its f-string. What a call leaves behind:
  the records it logged, the exception that escaped it (if one did), and the file system.
\<close>

datatype level = INFO | ERROR

datatype piece = Txt string | PathArg path | NatArg nat

type_synonym log_record = "level \<times> piece list"

record 'c outcome =
  logs :: "log_record list"
  raised :: "exn option"
  disk :: "'c node"

definition process_nab_folder :: "'c library \<Rightarrow> path \<Rightarrow> path \<Rightarrow> 'c node \<Rightarrow> 'c outcome" where
  "process_nab_folder lib input_dir output_file fs =
     (let log0 = [(INFO, [Txt ''Processing NAB folder: '', PathArg input_dir])] in
      if \<not> os_path_exists fs input_dir then
        \<lparr>logs = log0 @ [(ERROR, [Txt ''NAB source directory not found: '', PathArg input_dir])],
         raised = None, disk = fs\<rparr>
      else
        (case find (\<lambda>(dirpath, dirnames, filenames). ''Twitter_volume_AMZN.csv'' \<in> set filenames)
                (walk fs input_dir) of
           None \<Rightarrow>
             \<lparr>logs = log0 @ [(ERROR,
                 [Txt ''Could not find 'Twitter_volume_AMZN.csv'. Please check the NAB folder.''])],
              raised = None, disk = fs\<rparr>
         | Some (dirpath, dirnames, filenames) \<Rightarrow>
             (let target_file = dirpath @ [''Twitter_volume_AMZN.csv''] in
              case pd_read_csv lib Infer fs target_file of
                Inl e \<Rightarrow> \<lparr>logs = log0, raised = Some e, disk = fs\<rparr>
              | Inr df \<Rightarrow>
                  (case df_to_csv lib (nab_rule df) output_file fs of
                     Inl e \<Rightarrow> \<lparr>logs = log0, raised = Some e, disk = fs\<rparr>
                   | Inr fs' \<Rightarrow>
                       \<lparr>logs = log0 @ [(INFO,
                           [Txt ''Successfully created NAB dataset at: '', PathArg output_file])],
                        raised = None, disk = fs'\<rparr>))))"

definition process_yahoo_folder :: "'c library \<Rightarrow> path \<Rightarrow> path \<Rightarrow> 'c node \<Rightarrow> 'c outcome" where
  "process_yahoo_folder lib input_dir output_file fs =
     (let log0 = [(INFO, [Txt ''Processing Yahoo S5 folder: '', PathArg input_dir])] in
      if \<not> os_path_exists fs input_dir then
        \<lparr>logs = log0 @ [(ERROR, [Txt ''Yahoo source directory not found: '', PathArg input_dir])],
         raised = None, disk = fs\<rparr>
      else
        (let benchmark_folder = input_dir @ [''A1Benchmark''];
             benchmark_folder =
               (if \<not> os_path_isdir fs benchmark_folder then input_dir else benchmark_folder);
             file_paths = glob_glob lib fs (benchmark_folder @ [''real_*.csv''])
         in
           if file_paths = [] then
             \<lparr>logs = log0 @ [(ERROR,
                 [Txt ''No 'real_*.csv' files found in '', PathArg benchmark_folder, Txt ''.''])],
              raised = None, disk = fs\<rparr>
           else
             (case read_all lib fs file_paths of
                Inl e \<Rightarrow> \<lparr>logs = log0, raised = Some e, disk = fs\<rparr>
              | Inr dfs \<Rightarrow>
                  (case yahoo_rule lib dfs of
                     Inl e \<Rightarrow> \<lparr>logs = log0, raised = Some e, disk = fs\<rparr>
                   | Inr combined_df \<Rightarrow>
                       (case df_to_csv lib combined_df output_file fs of
                          Inl e \<Rightarrow> \<lparr>logs = log0, raised = Some e, disk = fs\<rparr>
                        | Inr fs' \<Rightarrow>
                            \<lparr>logs = log0 @ [(INFO,
                                [Txt ''Successfully combined '', NatArg (length file_paths),
                                 Txt '' files into Yahoo dataset at: '', PathArg output_file])],
                             raised = None, disk = fs'\<rparr>)))))"

definition process_kdd_folder :: "'c library \<Rightarrow> path \<Rightarrow> path \<Rightarrow> 'c node \<Rightarrow> 'c outcome" where
  "process_kdd_folder lib input_dir output_file fs =
     (let log0 = [(INFO, [Txt ''Processing KDD'99 folder: '', PathArg input_dir])] in
      if \<not> os_path_exists fs input_dir then
        \<lparr>logs = log0 @ [(ERROR, [Txt ''KDD source directory not found: '', PathArg input_dir])],
         raised = None, disk = fs\<rparr>
      else
        (let target_file = input_dir @ [''kddcup.data_10_percent''] in
         if \<not> os_path_exists fs target_file then
           \<lparr>logs = log0 @ [(ERROR,
               [Txt ''Could not find 'kddcup.data_10_percent' in '', PathArg input_dir, Txt ''.''])],
            raised = None, disk = fs\<rparr>
         else
           (case pd_read_csv lib (Names column_names) fs target_file of
              Inl e \<Rightarrow> \<lparr>logs = log0, raised = Some e, disk = fs\<rparr>
            | Inr df \<Rightarrow>
                (case kdd_rule df of
                   Inl e \<Rightarrow> \<lparr>logs = log0, raised = Some e, disk = fs\<rparr>
                 | Inr df_final \<Rightarrow>
                     (case df_to_csv lib df_final output_file fs of
                        Inl e \<Rightarrow> \<lparr>logs = log0, raised = Some e, disk = fs\<rparr>
                      | Inr fs' \<Rightarrow>
                          \<lparr>logs = log0 @ [(INFO,
                              [Txt ''Successfully processed KDD'99 dataset at: '',
                               PathArg output_file])],
                           raised = None, disk = fs'\<rparr>)))))"

text \<open>The configured paths, lines 22 to 28, from \<^verbatim>\<open>PROJECT_ROOT\<close>, the absolute path
  of the directory that holds the script.\<close>

definition SOURCE_DATA_FOLDER :: "path \<Rightarrow> path" where
  "SOURCE_DATA_FOLDER PROJECT_ROOT = PROJECT_ROOT @ [''source_data'']"

definition FINAL_DATASETS_FOLDER :: "path \<Rightarrow> path" where
  "FINAL_DATASETS_FOLDER PROJECT_ROOT = PROJECT_ROOT @ [''datasets'']"

definition INPUT_NAB_FOLDER :: "path \<Rightarrow> path" where
  "INPUT_NAB_FOLDER PROJECT_ROOT = SOURCE_DATA_FOLDER PROJECT_ROOT @ [''NAB-master'']"

definition INPUT_YAHOO_FOLDER :: "path \<Rightarrow> path" where
  "INPUT_YAHOO_FOLDER PROJECT_ROOT = SOURCE_DATA_FOLDER PROJECT_ROOT @ [''yahoo-s5-data'']"

definition INPUT_KDD_FOLDER :: "path \<Rightarrow> path" where
  "INPUT_KDD_FOLDER PROJECT_ROOT = SOURCE_DATA_FOLDER PROJECT_ROOT @ [''kdd-cup-99-data'']"

text \<open>One statement after another: an exception that escaped ends the sequence.\<close>

definition and_then :: "'c outcome \<Rightarrow> ('c node \<Rightarrow> 'c outcome) \<Rightarrow> 'c outcome" where
  "and_then r f =
     (case raised r of
        Some e \<Rightarrow> r
      | None \<Rightarrow> (let r' = f (disk r) in r'\<lparr>logs := logs r @ logs r'\<rparr>))"

definition os_makedirs :: "path \<Rightarrow> 'c node \<Rightarrow> 'c outcome" where
  "os_makedirs p fs =
     (case makedirs fs p of
        None \<Rightarrow> \<lparr>logs = [], raised = Some OSError, disk = fs\<rparr>
      | Some fs' \<Rightarrow> \<lparr>logs = [], raised = None, disk = fs'\<rparr>)"

definition logging_info :: "piece list \<Rightarrow> 'c node \<Rightarrow> 'c outcome" where
  "logging_info msg fs = \<lparr>logs = [(INFO, msg)], raised = None, disk = fs\<rparr>"

definition main :: "'c library \<Rightarrow> path \<Rightarrow> 'c node \<Rightarrow> 'c outcome" where
  "main lib PROJECT_ROOT fs =
     and_then (and_then (and_then (and_then (and_then (and_then (and_then
       (logging_info [Txt ''Starting dataset preparation process...''] fs)
       (os_makedirs (FINAL_DATASETS_FOLDER PROJECT_ROOT)))
       (process_nab_folder lib (INPUT_NAB_FOLDER PROJECT_ROOT)
          (FINAL_DATASETS_FOLDER PROJECT_ROOT @ [''NAB_realTweets.csv''])))
       (process_yahoo_folder lib (INPUT_YAHOO_FOLDER PROJECT_ROOT)
          (FINAL_DATASETS_FOLDER PROJECT_ROOT @ [''Yahoo_S5_A1.csv''])))
       (process_kdd_folder lib (INPUT_KDD_FOLDER PROJECT_ROOT)
          (FINAL_DATASETS_FOLDER PROJECT_ROOT @ [''KDD99.csv''])))
       (logging_info [Txt (replicate 50 (CHR ''=''))]))
       (logging_info
          [Txt ''All datasets have been processed. The 'datasets' folder is ready!'']))
       (logging_info [Txt (replicate 50 (CHR ''=''))])"

section \<open>Notions of the specification\<close>

text \<open>
  The canonical table of the specification: exactly one column is named
  \<open>is_anomaly\<close>, the cells of that column are \<open>0\<close> or \<open>1\<close>, and every row has a
  cell for every column of the header.
\<close>

definition named_cells :: "dataframe \<Rightarrow> string \<Rightarrow> cell list" where
  "named_cells df name = concat (map (column_values df) (positions name (columns df)))"

definition binary :: "cell \<Rightarrow> bool" where
  "binary v = (v = NumV 0 \<or> v = NumV 1)"

definition full_rows :: "dataframe \<Rightarrow> bool" where
  "full_rows df = list_all (\<lambda>r. length r = length (columns df)) (rows df)"

definition canonical :: "dataframe \<Rightarrow> bool" where
  "canonical df =
     (count_list (columns df) ''is_anomaly'' = 1
      \<and> list_all binary (named_cells df ''is_anomaly'')
      \<and> full_rows df)"

text \<open>
  The other order of the time-series rule that the specification allows: the rename
  rule on each frame first, then the merge. (\<open>yahoo_rule\<close> is the order of the code.)
\<close>

definition spec_rename_then_merge :: "'c library \<Rightarrow> dataframe list \<Rightarrow> exn + dataframe" where
  "spec_rename_then_merge lib dfs =
     pd_concat lib (map (\<lambda>df. if ''anomaly'' \<in> set (columns df)
                           then rename_columns ''anomaly'' ''is_anomaly'' df else df) dfs)"

text \<open>How \<open>pd_concat\<close> lays a row of one of its frames out in the merged frame
  \<open>out\<close>, and a merge in which the library has no cell to convert.\<close>

definition layout :: "'c library \<Rightarrow> dataframe list \<Rightarrow> dataframe \<Rightarrow> dataframe \<Rightarrow> cell list \<Rightarrow> cell list" where
  "layout lib dfs out df r =
     (if list_all (\<lambda>df. columns df = columns (hd dfs)) dfs then convert_row lib df (dtypes out) r
      else reindex_row lib df (columns out) (dtypes out) r)"

section \<open>Sample inputs\<close>

text \<open>Three records in the format of the KDD'99 file, as \<^verbatim>\<open>read_csv\<close> gives them with
  the schema: a normal connection, an attack, and a record whose label lacks the
  trailing period.\<close>

definition kdd_sample :: dataframe where
  "kdd_sample = \<lparr>columns = column_names,
     dtypes =
       [Int64, Object, Object, Object, Int64, Int64, Int64, Int64,
        Int64, Int64, Int64, Int64, Int64, Int64, Int64, Int64,
        Int64, Int64, Int64, Int64, Int64, Int64, Int64, Int64,
        Float64, Float64, Float64, Float64, Float64, Float64, Float64, Int64,
        Int64, Float64, Float64, Float64, Float64, Float64, Float64, Float64,
        Float64, Object],
     index = [0, 1, 2],
     rows =
      [[NumV 0, StrV ''tcp'', StrV ''http'', StrV ''SF'', NumV 181, NumV 5450, NumV 0,
        NumV 0, NumV 0, NumV 0, NumV 0, NumV 1, NumV 0,
        NumV 0, NumV 0, NumV 0, NumV 0, NumV 0,
        NumV 0, NumV 0, NumV 0, NumV 0, NumV 8,
        NumV 8, NumV 0, NumV 0, NumV 0, NumV 0,
        NumV 1, NumV 0, NumV 0, NumV 9,
        NumV 9, NumV 1, NumV 0,
        NumV (11 / 100), NumV 0, NumV 0,
        NumV 0, NumV 0, NumV 0, StrV ''normal.''],
       [NumV 0, StrV ''icmp'', StrV ''ecr_i'', StrV ''SF'', NumV 1032, NumV 0, NumV 0,
        NumV 0, NumV 0, NumV 0, NumV 0, NumV 0, NumV 0,
        NumV 0, NumV 0, NumV 0, NumV 0, NumV 0,
        NumV 0, NumV 0, NumV 0, NumV 0, NumV 511,
        NumV 511, NumV 0, NumV 0, NumV 0, NumV 0,
        NumV 1, NumV 0, NumV 0, NumV 255,
        NumV 255, NumV 1, NumV 0,
        NumV 1, NumV 0, NumV 0,
        NumV 0, NumV 0, NumV 0, StrV ''smurf.''],
       [NumV 0, StrV ''tcp'', StrV ''http'', StrV ''SF'', NumV 239, NumV 486, NumV 0,
        NumV 0, NumV 0, NumV 0, NumV 0, NumV 1, NumV 0,
        NumV 0, NumV 0, NumV 0, NumV 0, NumV 0,
        NumV 0, NumV 0, NumV 0, NumV 0, NumV 8,
        NumV 8, NumV 0, NumV 0, NumV 0, NumV 0,
        NumV 1, NumV 0, NumV 0, NumV 19,
        NumV 19, NumV 1, NumV 0,
        NumV (1 / 20), NumV 0, NumV 0,
        NumV 0, NumV 0, NumV 0, StrV ''normal'']]\<rparr>"

text \<open>Two records of a file of the same format whose last field is coded \<open>0\<close> and
  \<open>1\<close>: \<^verbatim>\<open>read_csv\<close> gives the \<open>label\<close> column the dtype \<^verbatim>\<open>int64\<close>.\<close>

definition kdd_coded :: dataframe where
  "kdd_coded = \<lparr>columns = column_names,
     dtypes =
       [Int64, Object, Object, Object, Int64, Int64, Int64, Int64,
        Int64, Int64, Int64, Int64, Int64, Int64, Int64, Int64,
        Int64, Int64, Int64, Int64, Int64, Int64, Int64, Int64,
        Float64, Float64, Float64, Float64, Float64, Float64, Float64, Int64,
        Int64, Float64, Float64, Float64, Float64, Float64, Float64, Float64,
        Float64, Int64],
     index = [0, 1],
     rows =
      [[NumV 0, StrV ''tcp'', StrV ''http'', StrV ''SF'', NumV 181, NumV 5450, NumV 0,
        NumV 0, NumV 0, NumV 0, NumV 0, NumV 1, NumV 0,
        NumV 0, NumV 0, NumV 0, NumV 0, NumV 0,
        NumV 0, NumV 0, NumV 0, NumV 0, NumV 8,
        NumV 8, NumV 0, NumV 0, NumV 0, NumV 0,
        NumV 1, NumV 0, NumV 0, NumV 9,
        NumV 9, NumV 1, NumV 0,
        NumV (11 / 100), NumV 0, NumV 0,
        NumV 0, NumV 0, NumV 0, NumV 0],
       [NumV 0, StrV ''icmp'', StrV ''ecr_i'', StrV ''SF'', NumV 1032, NumV 0, NumV 0,
        NumV 0, NumV 0, NumV 0, NumV 0, NumV 0, NumV 0,
        NumV 0, NumV 0, NumV 0, NumV 0, NumV 0,
        NumV 0, NumV 0, NumV 0, NumV 0, NumV 511,
        NumV 511, NumV 0, NumV 0, NumV 0, NumV 0,
        NumV 1, NumV 0, NumV 0, NumV 255,
        NumV 255, NumV 1, NumV 0,
        NumV 1, NumV 0, NumV 0,
        NumV 0, NumV 0, NumV 0, NumV 1]]\<rparr>"

text \<open>What the network-intrusion rule makes of the three records.\<close>

definition kdd_sample_out :: dataframe where
  "kdd_sample_out = \<lparr>columns =
      [''duration'', ''src_bytes'', ''dst_bytes'', ''land'',
       ''wrong_fragment'', ''urgent'', ''hot'', ''num_failed_logins'',
       ''logged_in'', ''num_compromised'', ''root_shell'',
       ''su_attempted'', ''num_root'', ''num_file_creations'',
       ''num_shells'', ''num_access_files'', ''num_outbound_cmds'',
       ''is_host_login'', ''is_guest_login'', ''count'', ''srv_count'',
       ''serror_rate'', ''srv_serror_rate'', ''rerror_rate'',
       ''srv_rerror_rate'', ''same_srv_rate'', ''diff_srv_rate'',
       ''srv_diff_host_rate'', ''dst_host_count'', ''dst_host_srv_count'',
       ''dst_host_same_srv_rate'', ''dst_host_diff_srv_rate'',
       ''dst_host_same_src_port_rate'', ''dst_host_srv_diff_host_rate'',
       ''dst_host_serror_rate'', ''dst_host_srv_serror_rate'',
       ''dst_host_rerror_rate'', ''dst_host_srv_rerror_rate'',
       ''is_anomaly'', ''is_anomaly''],
      dtypes =
        [Int64, Int64, Int64, Int64, Int64, Int64, Int64, Int64, Int64,
         Int64, Int64, Int64, Int64, Int64, Int64, Int64, Int64, Int64,
         Int64, Int64, Int64, Float64, Float64, Float64, Float64, Float64,
         Float64, Float64, Int64, Int64, Float64, Float64, Float64,
         Float64, Float64, Float64, Float64, Float64, Int64, Int64],
      index = [0, 1, 2],
      rows =
        [[NumV 0, NumV 181, NumV 5450, NumV 0, NumV 0, NumV 0, NumV 0,
          NumV 0, NumV 1, NumV 0, NumV 0, NumV 0, NumV 0, NumV 0, NumV 0,
          NumV 0, NumV 0, NumV 0, NumV 0, NumV 8, NumV 8, NumV 0, NumV 0,
          NumV 0, NumV 0, NumV 1, NumV 0, NumV 0, NumV 9, NumV 9, NumV 1,
          NumV 0, NumV (11 / 100), NumV 0, NumV 0, NumV 0, NumV 0, NumV 0,
          NumV 0, NumV 0],
         [NumV 0, NumV 1032, NumV 0, NumV 0, NumV 0, NumV 0, NumV 0,
          NumV 0, NumV 0, NumV 0, NumV 0, NumV 0, NumV 0, NumV 0, NumV 0,
          NumV 0, NumV 0, NumV 0, NumV 0, NumV 511, NumV 511, NumV 0,
          NumV 0, NumV 0, NumV 0, NumV 1, NumV 0, NumV 0, NumV 255,
          NumV 255, NumV 1, NumV 0, NumV 1, NumV 0, NumV 0, NumV 0,
          NumV 0, NumV 0, NumV 1, NumV 1],
         [NumV 0, NumV 239, NumV 486, NumV 0, NumV 0, NumV 0, NumV 0,
          NumV 0, NumV 1, NumV 0, NumV 0, NumV 0, NumV 0, NumV 0, NumV 0,
          NumV 0, NumV 0, NumV 0, NumV 0, NumV 8, NumV 8, NumV 0, NumV 0,
          NumV 0, NumV 0, NumV 1, NumV 0, NumV 0, NumV 19, NumV 19,
          NumV 1, NumV 0, NumV (1 / 20), NumV 0, NumV 0, NumV 0, NumV 0,
          NumV 0, NumV 1, NumV 1]]\<rparr>"

text \<open>What the network-intrusion rule makes of the two coded records.\<close>

definition kdd_coded_out :: dataframe where
  "kdd_coded_out = \<lparr>columns =
      [''duration'', ''src_bytes'', ''dst_bytes'', ''land'',
       ''wrong_fragment'', ''urgent'', ''hot'', ''num_failed_logins'',
       ''logged_in'', ''num_compromised'', ''root_shell'',
       ''su_attempted'', ''num_root'', ''num_file_creations'',
       ''num_shells'', ''num_access_files'', ''num_outbound_cmds'',
       ''is_host_login'', ''is_guest_login'', ''count'', ''srv_count'',
       ''serror_rate'', ''srv_serror_rate'', ''rerror_rate'',
       ''srv_rerror_rate'', ''same_srv_rate'', ''diff_srv_rate'',
       ''srv_diff_host_rate'', ''dst_host_count'', ''dst_host_srv_count'',
       ''dst_host_same_srv_rate'', ''dst_host_diff_srv_rate'',
       ''dst_host_same_src_port_rate'', ''dst_host_srv_diff_host_rate'',
       ''dst_host_serror_rate'', ''dst_host_srv_serror_rate'',
       ''dst_host_rerror_rate'', ''dst_host_srv_rerror_rate'', ''label'',
       ''is_anomaly'', ''is_anomaly''],
      dtypes =
        [Int64, Int64, Int64, Int64, Int64, Int64, Int64, Int64, Int64,
         Int64, Int64, Int64, Int64, Int64, Int64, Int64, Int64, Int64,
         Int64, Int64, Int64, Float64, Float64, Float64, Float64, Float64,
         Float64, Float64, Int64, Int64, Float64, Float64, Float64,
         Float64, Float64, Float64, Float64, Float64, Int64, Int64,
         Int64],
      index = [0, 1],
      rows =
        [[NumV 0, NumV 181, NumV 5450, NumV 0, NumV 0, NumV 0, NumV 0,
          NumV 0, NumV 1, NumV 0, NumV 0, NumV 0, NumV 0, NumV 0, NumV 0,
          NumV 0, NumV 0, NumV 0, NumV 0, NumV 8, NumV 8, NumV 0, NumV 0,
          NumV 0, NumV 0, NumV 1, NumV 0, NumV 0, NumV 9, NumV 9, NumV 1,
          NumV 0, NumV (11 / 100), NumV 0, NumV 0, NumV 0, NumV 0, NumV 0,
          NumV 0, NumV 1, NumV 1],
         [NumV 0, NumV 1032, NumV 0, NumV 0, NumV 0, NumV 0, NumV 0,
          NumV 0, NumV 0, NumV 0, NumV 0, NumV 0, NumV 0, NumV 0, NumV 0,
          NumV 0, NumV 0, NumV 0, NumV 0, NumV 511, NumV 511, NumV 0,
          NumV 0, NumV 0, NumV 0, NumV 1, NumV 0, NumV 0, NumV 255,
          NumV 255, NumV 1, NumV 0, NumV 1, NumV 0, NumV 0, NumV 0,
          NumV 0, NumV 0, NumV 1, NumV 1, NumV 1]]\<rparr>"

section \<open>The frame operations\<close>

lemma positions_mem: "j \<in> set (positions name cs) \<longleftrightarrow> j < length cs \<and> cs ! j = name"
  by (auto simp: positions_def)

lemma filter_eq_upt: "p < n \<Longrightarrow> filter (\<lambda>j. j = p) [0..<n] = [p]"
  by (induction n) (auto simp: less_Suc_eq)

lemma positions_distinct:
  assumes "distinct cs" "p < length cs"
  shows "positions (cs ! p) cs = [p]"
proof -
  have "filter (\<lambda>j. cs ! j = cs ! p) [0..<length cs] = filter (\<lambda>j. j = p) [0..<length cs]"
    using assms by (intro filter_cong) (auto simp: nth_eq_iff_index_eq)
  then show ?thesis using assms by (simp add: positions_def filter_eq_upt)
qed

lemma positions_empty: "name \<notin> set cs \<Longrightarrow> positions name cs = []"
  by (auto simp: positions_def filter_empty_conv)

lemma map2_same: "map2 f xs (map g xs) = map (\<lambda>x. f x (g x)) xs"
  by (induction xs) auto

lemma getitem_unique:
  assumes "distinct (columns df)" "p < length (columns df)" "columns df ! p = name"
  shows "getitem df name = Inr (dtype_at df p, column_values df p)"
  using positions_distinct [OF assms(1,2)] assms(3) by (simp add: getitem_def)

lemma setitem_new:
  assumes "name \<notin> set (columns df)"
  shows "setitem df name (apply_int f (d, column_values df p)) =
         df\<lparr>columns := columns df @ [name],
            dtypes := dtypes df @ [if rows df = [] then d else Int64],
            rows := map (\<lambda>r. r @ [f (r ! p)]) (rows df)\<rparr>"
  using assms by (simp add: setitem_def apply_int_def column_values_def map2_same o_def)

lemma select_dtypes_number_subset: "set (select_dtypes_number df) \<subseteq> set (columns df)"
  by (auto simp: select_dtypes_number_def dest: set_zip_leftD)

lemma nth_positions_distinct:
  assumes "distinct cs" "set keys \<subseteq> set cs"
  shows "map (\<lambda>j. cs ! j) (concat (map (\<lambda>k. positions k cs) keys)) = keys"
  using assms(2)
proof (induction keys)
  case Nil
  then show ?case by simp
next
  case (Cons k keys)
  then obtain p where p: "p < length cs" "cs ! p = k"
    by (auto simp: in_set_conv_nth)
  with positions_distinct [OF assms(1) p(1)] Cons show ?case by simp
qed

lemma getitem_list_distinct:
  assumes "distinct (columns df)" "set keys \<subseteq> set (columns df)"
  defines "js \<equiv> concat (map (\<lambda>k. positions k (columns df)) keys)"
  shows "getitem_list df keys =
     Inr \<lparr>columns = keys, dtypes = map (dtype_at df) js, index = index df,
          rows = map (\<lambda>r. map (\<lambda>j. r ! j) js) (rows df)\<rparr>"
  using assms(2) nth_positions_distinct [OF assms(1,2)]
  by (auto simp: getitem_list_def list_all_iff Let_def js_def)

lemma rectangular_row: "rectangular df \<Longrightarrow> r \<in> set (rows df) \<Longrightarrow> length r = length (columns df)"
  by (auto simp: rectangular_def list_all_iff)

lemma kdd_rule_general:
  assumes cs: "columns df = cs" "distinct cs" "p < length cs" "cs ! p = ''label''"
      "''is_anomaly'' \<notin> set cs"
  defines "df1 \<equiv> df\<lparr>columns := cs @ [''is_anomaly''],
                      dtypes := dtypes df @ [if rows df = [] then dtype_at df p else Int64],
                      rows := map (\<lambda>r. r @ [binary_label (r ! p)]) (rows df)\<rparr>"
  defines "keys \<equiv> select_dtypes_number df1 @ [''is_anomaly'']"
  defines "js \<equiv> concat (map (\<lambda>k. positions k (cs @ [''is_anomaly''])) keys)"
  shows "kdd_rule df = Inr \<lparr>columns = keys, dtypes = map (dtype_at df1) js, index = index df,
            rows = map (\<lambda>r. map (\<lambda>j. (r @ [binary_label (r ! p)]) ! j) js) (rows df)\<rparr>"
    and "map (\<lambda>j. (cs @ [''is_anomaly'']) ! j) js = keys"
proof -
  have g: "getitem df ''label'' = Inr (dtype_at df p, column_values df p)"
    using cs by (intro getitem_unique) auto
  have s: "setitem df ''is_anomaly'' (apply_int binary_label (dtype_at df p, column_values df p)) = df1"
    using cs setitem_new [of "''is_anomaly''" df binary_label "dtype_at df p" p]
    by (simp add: df1_def)
  have d1: "distinct (columns df1)" "columns df1 = cs @ [''is_anomaly'']"
    using cs by (auto simp: df1_def)
  have sub: "set keys \<subseteq> set (columns df1)"
    using select_dtypes_number_subset [of df1] by (auto simp: keys_def d1)
  have "kdd_rule df = getitem_list df1 keys"
    unfolding kdd_rule_def g by (simp add: s Let_def keys_def)
  also have "\<dots> = Inr \<lparr>columns = keys, dtypes = map (dtype_at df1) js, index = index df1,
       rows = map (\<lambda>r. map (\<lambda>j. r ! j) js) (rows df1)\<rparr>"
    using getitem_list_distinct [OF d1(1) sub] by (simp add: d1 js_def)
  also have "index df1 = index df" by (simp add: df1_def)
  also have "map (\<lambda>r. map (\<lambda>j. r ! j) js) (rows df1) =
      map (\<lambda>r. map (\<lambda>j. (r @ [binary_label (r ! p)]) ! j) js) (rows df)"
    by (simp add: df1_def o_def)
  finally show "kdd_rule df = Inr \<lparr>columns = keys, dtypes = map (dtype_at df1) js,
            index = index df,
            rows = map (\<lambda>r. map (\<lambda>j. (r @ [binary_label (r ! p)]) ! j) js) (rows df)\<rparr>" .
  show "map (\<lambda>j. (cs @ [''is_anomaly'']) ! j) js = keys"
    using nth_positions_distinct [OF d1(1) sub] by (simp add: d1 js_def)
qed

lemma column_names_facts:
  "distinct column_names" "length column_names = 42" "column_names ! 41 = ''label''"
  "''is_anomaly'' \<notin> set column_names"
  "column_names ! 1 = ''protocol_type''" "column_names ! 2 = ''service''"
  "column_names ! 3 = ''flag''"
  unfolding column_names_def by simp_all

lemma mem_select_dtypes_number:
  "typed df \<Longrightarrow> c \<in> set (select_dtypes_number df) \<longleftrightarrow>
     (\<exists>q<length (columns df). columns df ! q = c \<and> is_number (dtypes df ! q))"
  by (force simp: select_dtypes_number_def set_zip typed_def)

lemma select_dtypes_number_snoc:
  assumes "typed df"
  shows "select_dtypes_number (df\<lparr>columns := columns df @ [c], dtypes := dtypes df @ [d],
            rows := rs\<rparr>)
         = select_dtypes_number df @ (if is_number d then [c] else [])"
  using assms by (simp add: select_dtypes_number_def typed_def)

text \<open>The cells of the result of the network-intrusion rule on a frame with the
  schema: under a name of the schema the cell of the frame, under \<open>is_anomaly\<close>
  the lambda of line 108 on the label.\<close>

lemma kdd_rule_cells:
  assumes "columns df = column_names" "rectangular df"
  shows "\<exists>out js. kdd_rule df = Inr out
      \<and> columns out = select_dtypes_number
            (df\<lparr>columns := column_names @ [''is_anomaly''],
                dtypes := dtypes df @ [if rows df = [] then dtype_at df 41 else Int64],
                rows := map (\<lambda>r. r @ [binary_label (r ! 41)]) (rows df)\<rparr>) @ [''is_anomaly'']
      \<and> index out = index df
      \<and> length (rows out) = length (rows df)
      \<and> length js = length (columns out)
      \<and> dtypes out = map (dtype_in (dtypes df @ [if rows df = [] then dtype_at df 41 else Int64])) js
      \<and> (\<forall>i<length (rows df). length (rows out ! i) = length (columns out))
      \<and> (\<forall>k<length (columns out). js ! k \<le> 42
            \<and> (js ! k < 42 \<longrightarrow> columns out ! k = column_names ! (js ! k))
            \<and> (js ! k = 42 \<longleftrightarrow> columns out ! k = ''is_anomaly'')
            \<and> (\<forall>i<length (rows df). rows out ! i ! k =
                  (if js ! k = 42 then binary_label (rows df ! i ! 41) else rows df ! i ! (js ! k))))"
proof -
  define df1 where "df1 = df\<lparr>columns := column_names @ [''is_anomaly''],
                dtypes := dtypes df @ [if rows df = [] then dtype_at df 41 else Int64],
                rows := map (\<lambda>r. r @ [binary_label (r ! 41)]) (rows df)\<rparr>"
  define keys where "keys = select_dtypes_number df1 @ [''is_anomaly'']"
  define js where "js = concat (map (\<lambda>k. positions k (column_names @ [''is_anomaly''])) keys)"
  define out where "out = \<lparr>columns = keys, dtypes = map (dtype_at df1) js, index = index df,
            rows = map (\<lambda>r. map (\<lambda>j. (r @ [binary_label (r ! 41)]) ! j) js) (rows df)\<rparr>"
  have l41: "41 < length column_names" by (simp add: column_names_facts(2))
  have k: "kdd_rule df = Inr out"
    using kdd_rule_general(1) [OF assms(1) column_names_facts(1) l41 column_names_facts(3,4)]
    by (simp add: out_def keys_def js_def df1_def)
  have m: "map (\<lambda>j. (column_names @ [''is_anomaly'']) ! j) js = keys"
    using kdd_rule_general(2) [OF assms(1) column_names_facts(1) l41 column_names_facts(3,4)]
    by (simp add: keys_def js_def df1_def)
  have len: "length js = length keys"
    using arg_cong [OF m, of length] by simp
  have at: "js ! k \<le> 42
      \<and> (js ! k < 42 \<longrightarrow> keys ! k = column_names ! (js ! k))
      \<and> (js ! k = 42 \<longleftrightarrow> keys ! k = ''is_anomaly'')
      \<and> (\<forall>i<length (rows df). rows out ! i ! k =
            (if js ! k = 42 then binary_label (rows df ! i ! 41) else rows df ! i ! (js ! k)))"
    if "k < length keys" for k
  proof -
    have kj: "k < length js" using that len by simp
    have nm: "(column_names @ [''is_anomaly'']) ! (js ! k) = keys ! k"
      using arg_cong [OF m, of "\<lambda>xs. xs ! k"] kj by simp
    have bound: "js ! k < length (column_names @ [''is_anomaly''])"
      using nth_mem [OF kj] by (auto simp: js_def positions_mem)
    then have le: "js ! k \<le> 42" by (simp add: column_names_facts(2))
    have lt: "keys ! k = column_names ! (js ! k)" if "js ! k < 42"
      using nm that by (simp add: nth_append column_names_facts(2))
    have eq: "js ! k = 42 \<longleftrightarrow> keys ! k = ''is_anomaly''"
    proof
      assume "js ! k = 42"
      then show "keys ! k = ''is_anomaly''"
        using nm by (simp add: nth_append column_names_facts(2))
    next
      assume a: "keys ! k = ''is_anomaly''"
      show "js ! k = 42"
      proof (rule ccontr)
        assume "js ! k \<noteq> 42"
        with le have "js ! k < 42" by simp
        then have "column_names ! (js ! k) = ''is_anomaly''"
          using lt a by simp
        moreover have "column_names ! (js ! k) \<in> set column_names"
          using \<open>js ! k < 42\<close> by (intro nth_mem) (simp add: column_names_facts(2))
        ultimately show False using column_names_facts(4) by simp
      qed
    qed
    have cells: "rows out ! i ! k =
            (if js ! k = 42 then binary_label (rows df ! i ! 41) else rows df ! i ! (js ! k))"
      if "i < length (rows df)" for i
    proof -
      have "length (rows df ! i) = 42"
        using rectangular_row [OF assms(2)] that assms(1) by (simp add: column_names_facts(2))
      then show ?thesis
        using that kj le by (auto simp: out_def nth_append)
    qed
    from le lt eq cells show ?thesis by blast
  qed
  have "columns out = select_dtypes_number df1 @ [''is_anomaly'']"
    by (simp add: out_def keys_def)
  moreover have "index out = index df" "length (rows out) = length (rows df)"
      "length js = length (columns out)"
    by (simp_all add: out_def len)
  moreover have "dtypes out =
      map (dtype_in (dtypes df @ [if rows df = [] then dtype_at df 41 else Int64])) js"
    by (simp add: out_def df1_def dtype_at_def [abs_def])
  moreover have "\<forall>i<length (rows df). length (rows out ! i) = length (columns out)"
    by (simp add: out_def len)
  moreover have "\<forall>k<length (columns out). js ! k \<le> 42
            \<and> (js ! k < 42 \<longrightarrow> columns out ! k = column_names ! (js ! k))
            \<and> (js ! k = 42 \<longleftrightarrow> columns out ! k = ''is_anomaly'')
            \<and> (\<forall>i<length (rows df). rows out ! i ! k =
                  (if js ! k = 42 then binary_label (rows df ! i ! 41) else rows df ! i ! (js ! k)))"
    using at by (simp add: out_def)
  ultimately show ?thesis
    using k unfolding df1_def by blast
qed

subsection \<open>The sample records\<close>

lemma kdd_sample_schema: "columns kdd_sample = column_names"
  by (simp add: kdd_sample_def)

lemma kdd_sample_rectangular: "rectangular kdd_sample"
  by code_simp

lemma kdd_sample_typed: "typed kdd_sample"
  by code_simp

lemma kdd_rule_sample: "kdd_rule kdd_sample = Inr kdd_sample_out"
  by code_simp

lemma kdd_sample_labels:
  "rows kdd_sample ! 0 ! 41 = StrV ''normal.''" "rows kdd_sample ! 1 ! 41 = StrV ''smurf.''"
  "rows kdd_sample ! 2 ! 41 = StrV ''normal''"
  by code_simp+

lemma kdd_sample_out_cells:
  "columns kdd_sample_out ! 38 = ''is_anomaly''" "columns kdd_sample_out ! 39 = ''is_anomaly''"
  "length (columns kdd_sample_out) = 40" "length (rows kdd_sample) = 3"
  by code_simp+

section \<open>The streaming-metrics rule\<close>

text \<open>
  Claim C5. The streaming-metrics rule changes names only: the rows, the row labels
  and the dtypes stay, a column named \<open>label\<close> is named \<open>is_anomaly\<close> in the result
  and every other name stays, and a frame without a \<open>label\<close> column comes back as it
  is. The spec's scenario (columns timestamp, value, label and two rows) is the witness.
\<close>

theorem nab_rename_only:
  "rows (nab_rule df) = rows df \<and> index (nab_rule df) = index df
   \<and> dtypes (nab_rule df) = dtypes df
   \<and> length (columns (nab_rule df)) = length (columns df)
   \<and> (\<forall>j < length (columns df). columns (nab_rule df) ! j =
         (if columns df ! j = ''label'' then ''is_anomaly'' else columns df ! j))
   \<and> (''label'' \<notin> set (columns df) \<longrightarrow> nab_rule df = df)"
  by (auto simp: nab_rule_def rename_columns_def dest: nth_mem)

theorem nab_rename_only_witness:
  "nab_rule \<lparr>columns = [''timestamp'', ''value'', ''label''],
      dtypes = [Object, Float64, Int64], index = [0, 1],
      rows = [[StrV ''t1'', NumV 5, NumV 0], [StrV ''t2'', NumV 9, NumV 1]]\<rparr>
   = \<lparr>columns = [''timestamp'', ''value'', ''is_anomaly''],
      dtypes = [Object, Float64, Int64], index = [0, 1],
      rows = [[StrV ''t1'', NumV 5, NumV 0], [StrV ''t2'', NumV 9, NumV 1]]\<rparr>"
  using nab_rename_only [of "\<lparr>columns = [''timestamp'', ''value'', ''label''],
      dtypes = [Object, Float64, Int64], index = [0, 1],
      rows = [[StrV ''t1'', NumV 5, NumV 0], [StrV ''t2'', NumV 9, NumV 1]]\<rparr>"]
  by (simp add: nab_rule_def rename_columns_def)

section \<open>The network-intrusion rule\<close>

text \<open>
  Claim C2. On a frame read with the fixed 42-name schema, the network-intrusion rule
  succeeds, keeps the rows, has an \<open>is_anomaly\<close> column, and every cell of a column
  named \<open>is_anomaly\<close> is the lambda of line 108 on the label field of its row (field
  42, index 41): \<open>0\<close> exactly when the label is the string \<open>normal.\<close>, \<open>1\<close> otherwise.
\<close>

theorem kdd_binary_label:
  assumes "columns df = column_names" "rectangular df"
  shows "\<exists>out. kdd_rule df = Inr out
      \<and> length (rows out) = length (rows df)
      \<and> ''is_anomaly'' \<in> set (columns out)
      \<and> (\<forall>i<length (rows df). \<forall>j<length (columns out).
            columns out ! j = ''is_anomaly'' \<longrightarrow>
              rows out ! i ! j = binary_label (rows df ! i ! 41)
              \<and> (rows out ! i ! j = NumV 0 \<longleftrightarrow> rows df ! i ! 41 = StrV ''normal.'')
              \<and> (rows out ! i ! j = NumV 1 \<longleftrightarrow> rows df ! i ! 41 \<noteq> StrV ''normal.''))"
proof -
  from kdd_rule_cells [OF assms] obtain out js where k: "kdd_rule df = Inr out"
    and cols: "columns out = select_dtypes_number
            (df\<lparr>columns := column_names @ [''is_anomaly''],
                dtypes := dtypes df @ [if rows df = [] then dtype_at df 41 else Int64],
                rows := map (\<lambda>r. r @ [binary_label (r ! 41)]) (rows df)\<rparr>) @ [''is_anomaly'']"
    and len: "length (rows out) = length (rows df)"
    and at: "\<forall>k<length (columns out). js ! k \<le> 42
            \<and> (js ! k < 42 \<longrightarrow> columns out ! k = column_names ! (js ! k))
            \<and> (js ! k = 42 \<longleftrightarrow> columns out ! k = ''is_anomaly'')
            \<and> (\<forall>i<length (rows df). rows out ! i ! k =
                  (if js ! k = 42 then binary_label (rows df ! i ! 41) else rows df ! i ! (js ! k)))"
    by blast
  have cell: "rows out ! i ! j = binary_label (rows df ! i ! 41)"
    if "i < length (rows df)" "j < length (columns out)" "columns out ! j = ''is_anomaly''"
    for i j
    using at that by simp
  have "''is_anomaly'' \<in> set (columns out)" by (simp add: cols)
  moreover have "\<forall>i<length (rows df). \<forall>j<length (columns out).
            columns out ! j = ''is_anomaly'' \<longrightarrow>
              rows out ! i ! j = binary_label (rows df ! i ! 41)
              \<and> (rows out ! i ! j = NumV 0 \<longleftrightarrow> rows df ! i ! 41 = StrV ''normal.'')
              \<and> (rows out ! i ! j = NumV 1 \<longleftrightarrow> rows df ! i ! 41 \<noteq> StrV ''normal.'')"
    using cell by (simp add: binary_label_def)
  ultimately show ?thesis using k len by blast
qed

theorem kdd_binary_label_witness:
  "columns kdd_sample = column_names \<and> rectangular kdd_sample
   \<and> kdd_rule kdd_sample = Inr kdd_sample_out
   \<and> columns kdd_sample_out ! 38 = ''is_anomaly''
   \<and> rows kdd_sample ! 0 ! 41 = StrV ''normal.'' \<and> rows kdd_sample_out ! 0 ! 38 = NumV 0
   \<and> rows kdd_sample ! 1 ! 41 = StrV ''smurf.'' \<and> rows kdd_sample_out ! 1 ! 38 = NumV 1
   \<and> rows kdd_sample ! 2 ! 41 = StrV ''normal'' \<and> rows kdd_sample_out ! 2 ! 38 = NumV 1"
proof -
  from kdd_binary_label [OF kdd_sample_schema kdd_sample_rectangular]
  have cells: "\<forall>i<length (rows kdd_sample). \<forall>j<length (columns kdd_sample_out).
      columns kdd_sample_out ! j = ''is_anomaly'' \<longrightarrow>
        rows kdd_sample_out ! i ! j = binary_label (rows kdd_sample ! i ! 41)"
    by (simp add: kdd_rule_sample)
  have "rows kdd_sample_out ! i ! 38 = binary_label (rows kdd_sample ! i ! 41)" if "i < 3" for i
    using cells that kdd_sample_out_cells by simp
  from this [of 0] this [of 1] this [of 2] show ?thesis
    by (simp del: One_nat_def add: kdd_sample_schema kdd_sample_rectangular kdd_rule_sample kdd_sample_labels
        kdd_sample_out_cells binary_label_def)
qed

lemma kdd_sample_dtypes:
  "is_number (dtypes kdd_sample ! 1) = False" "is_number (dtypes kdd_sample ! 2) = False"
  "is_number (dtypes kdd_sample ! 3) = False" "is_number (dtypes kdd_sample ! 41) = False"
  by code_simp+

lemma kdd_sample_kept:
  "filter (\<lambda>c. c \<noteq> ''is_anomaly'') (columns kdd_sample_out) = select_dtypes_number kdd_sample"
  "columns kdd_sample_out ! 1 = column_names ! 4" "rows kdd_sample ! 0 ! 4 = NumV 181"
  "rows kdd_sample ! 1 ! 4 = NumV 1032"
  by code_simp+

lemma kdd_coded_facts:
  "columns kdd_coded = column_names" "rectangular kdd_coded" "typed kdd_coded"
  "kdd_rule kdd_coded = Inr kdd_coded_out" "dtypes kdd_coded ! 41 = Int64"
  "''label'' \<in> set (columns kdd_coded_out)"
  by code_simp+

text \<open>
  Claim C3, as the code has it. The projection of line 111 goes by the dtype of a
  column, not by its name. On a typed frame read with the fixed 42-name schema the rule
  succeeds; apart from \<open>is_anomaly\<close>, which is in the header, the header is the
  numeric-typed columns of the frame in their order; so a column of the schema is in
  the header exactly when its dtype is numeric: \<open>protocol_type\<close>, \<open>service\<close>,
  \<open>flag\<close> and \<open>label\<close> are absent when they hold text and present when the file
  codes them as numbers. The rows and their labels stay, every row has a cell for every
  column, and a kept column keeps its dtype and its cells.
\<close>

theorem kdd_projection_by_dtype:
  assumes "columns df = column_names" "rectangular df" "typed df"
  shows "\<exists>out. kdd_rule df = Inr out
      \<and> filter (\<lambda>c. c \<noteq> ''is_anomaly'') (columns out) = select_dtypes_number df
      \<and> ''is_anomaly'' \<in> set (columns out)
      \<and> (\<forall>q<length column_names.
            column_names ! q \<in> set (columns out) \<longleftrightarrow> is_number (dtypes df ! q))
      \<and> (''protocol_type'' \<in> set (columns out) \<longleftrightarrow> is_number (dtypes df ! 1))
      \<and> (''service'' \<in> set (columns out) \<longleftrightarrow> is_number (dtypes df ! 2))
      \<and> (''flag'' \<in> set (columns out) \<longleftrightarrow> is_number (dtypes df ! 3))
      \<and> (''label'' \<in> set (columns out) \<longleftrightarrow> is_number (dtypes df ! 41))
      \<and> index out = index df \<and> length (rows out) = length (rows df)
      \<and> (\<forall>i<length (rows df). length (rows out ! i) = length (columns out))
      \<and> (\<forall>k<length (columns out). \<forall>q<length column_names.
            columns out ! k = column_names ! q \<longrightarrow>
              dtypes out ! k = dtypes df ! q
              \<and> (\<forall>i<length (rows df). rows out ! i ! k = rows df ! i ! q))"
proof -
  define d' where "d' = (if rows df = [] then dtype_at df 41 else Int64)"
  from kdd_rule_cells [OF assms(1,2)] obtain out js where k: "kdd_rule df = Inr out"
    and cols0: "columns out = select_dtypes_number
            (df\<lparr>columns := column_names @ [''is_anomaly''],
                dtypes := dtypes df @ [d'],
                rows := map (\<lambda>r. r @ [binary_label (r ! 41)]) (rows df)\<rparr>) @ [''is_anomaly'']"
    and ix: "index out = index df"
    and len: "length (rows out) = length (rows df)"
    and ljs: "length js = length (columns out)"
    and dts: "dtypes out = map (dtype_in (dtypes df @ [d'])) js"
    and full: "\<forall>i<length (rows df). length (rows out ! i) = length (columns out)"
    and at: "\<forall>k<length (columns out). js ! k \<le> 42
            \<and> (js ! k < 42 \<longrightarrow> columns out ! k = column_names ! (js ! k))
            \<and> (js ! k = 42 \<longleftrightarrow> columns out ! k = ''is_anomaly'')
            \<and> (\<forall>i<length (rows df). rows out ! i ! k =
                  (if js ! k = 42 then binary_label (rows df ! i ! 41) else rows df ! i ! (js ! k)))"
    unfolding d'_def by blast
  have ld: "length (dtypes df) = 42"
    using assms(1,3) by (simp add: typed_def column_names_facts(2))
  have cols: "columns out = select_dtypes_number df @ (if is_number d' then [''is_anomaly''] else [])
      @ [''is_anomaly'']"
    using select_dtypes_number_snoc [OF assms(3), where c = "''is_anomaly''" and d = d'
        and rs = "map (\<lambda>r. r @ [binary_label (r ! 41)]) (rows df)"]
    by (simp add: cols0 assms(1))
  have sub: "set (select_dtypes_number df) \<subseteq> set column_names"
    using select_dtypes_number_subset [of df] by (simp add: assms(1))
  have "filter (\<lambda>c. c \<noteq> ''is_anomaly'') (select_dtypes_number df) = select_dtypes_number df"
    using sub column_names_facts(4) by (intro filter_True) auto
  then have filt: "filter (\<lambda>c. c \<noteq> ''is_anomaly'') (columns out) = select_dtypes_number df"
    by (simp add: cols)
  have mem: "column_names ! q \<in> set (columns out) \<longleftrightarrow> is_number (dtypes df ! q)"
    if "q < length column_names" for q
  proof -
    have ne: "column_names ! q \<noteq> ''is_anomaly''"
      using nth_mem [OF that] column_names_facts(4) by force
    have "column_names ! q \<in> set (columns out) \<longleftrightarrow> column_names ! q \<in> set (select_dtypes_number df)"
      using ne by (auto simp: cols)
    also have "\<dots> \<longleftrightarrow> (\<exists>q'<length column_names. column_names ! q' = column_names ! q
        \<and> is_number (dtypes df ! q'))"
      by (simp add: mem_select_dtypes_number [OF assms(3)] assms(1))
    also have "\<dots> \<longleftrightarrow> is_number (dtypes df ! q)"
      using that column_names_facts(1) by (auto simp: nth_eq_iff_index_eq)
    finally show ?thesis .
  qed
  have kept: "dtypes out ! k = dtypes df ! q
              \<and> (\<forall>i<length (rows df). rows out ! i ! k = rows df ! i ! q)"
    if "k < length (columns out)" "q < length column_names" "columns out ! k = column_names ! q"
    for k q
  proof -
    have ne: "column_names ! q \<noteq> ''is_anomaly''"
      using nth_mem [OF that(2)] column_names_facts(4) by force
    from at that(1) have a: "js ! k \<le> 42"
        "js ! k < 42 \<longrightarrow> columns out ! k = column_names ! (js ! k)"
        "js ! k = 42 \<longleftrightarrow> columns out ! k = ''is_anomaly''"
        "\<forall>i<length (rows df). rows out ! i ! k =
                  (if js ! k = 42 then binary_label (rows df ! i ! 41) else rows df ! i ! (js ! k))"
      by blast+
    from a(3) ne that(3) have "js ! k \<noteq> 42" by simp
    with a(1) have lt: "js ! k < 42" by simp
    with a(2) that(3) have "column_names ! (js ! k) = column_names ! q" by simp
    with lt that(2) have jq: "js ! k = q"
      using column_names_facts(1) by (simp add: nth_eq_iff_index_eq column_names_facts(2))
    have "dtypes out ! k = dtype_in (dtypes df @ [d']) (js ! k)"
      using that(1) ljs by (simp add: dts)
    also have "\<dots> = dtypes df ! q"
      using lt jq ld by (simp add: dtype_in_def nth_append)
    finally have "dtypes out ! k = dtypes df ! q" .
    moreover have "\<forall>i<length (rows df). rows out ! i ! k = rows df ! i ! q"
      using a(4) jq \<open>js ! k \<noteq> 42\<close> by simp
    ultimately show ?thesis by blast
  qed
  have "''is_anomaly'' \<in> set (columns out)" by (simp add: cols)
  moreover have "\<forall>q<length column_names.
            column_names ! q \<in> set (columns out) \<longleftrightarrow> is_number (dtypes df ! q)"
    using mem by blast
  moreover have "''protocol_type'' \<in> set (columns out) \<longleftrightarrow> is_number (dtypes df ! 1)"
  proof -
    have "1 < length column_names" by (simp add: column_names_facts(2))
    from mem [OF this] show ?thesis unfolding column_names_facts(5) .
  qed
  moreover have "''service'' \<in> set (columns out) \<longleftrightarrow> is_number (dtypes df ! 2)"
  proof -
    have "2 < length column_names" by (simp add: column_names_facts(2))
    from mem [OF this] show ?thesis unfolding column_names_facts(6) .
  qed
  moreover have "''flag'' \<in> set (columns out) \<longleftrightarrow> is_number (dtypes df ! 3)"
  proof -
    have "3 < length column_names" by (simp add: column_names_facts(2))
    from mem [OF this] show ?thesis unfolding column_names_facts(7) .
  qed
  moreover have "''label'' \<in> set (columns out) \<longleftrightarrow> is_number (dtypes df ! 41)"
  proof -
    have "41 < length column_names" by (simp add: column_names_facts(2))
    from mem [OF this] show ?thesis unfolding column_names_facts(3) .
  qed
  moreover have "\<forall>k<length (columns out). \<forall>q<length column_names.
            columns out ! k = column_names ! q \<longrightarrow>
              dtypes out ! k = dtypes df ! q
              \<and> (\<forall>i<length (rows df). rows out ! i ! k = rows df ! i ! q)"
    using kept by blast
  ultimately show ?thesis
    using k filt ix len full by blast
qed

theorem kdd_projection_by_dtype_witness:
  "columns kdd_sample = column_names \<and> rectangular kdd_sample \<and> typed kdd_sample
   \<and> kdd_rule kdd_sample = Inr kdd_sample_out
   \<and> filter (\<lambda>c. c \<noteq> ''is_anomaly'') (columns kdd_sample_out) = select_dtypes_number kdd_sample
   \<and> ''protocol_type'' \<notin> set (columns kdd_sample_out)
   \<and> ''service'' \<notin> set (columns kdd_sample_out)
   \<and> ''flag'' \<notin> set (columns kdd_sample_out)
   \<and> ''label'' \<notin> set (columns kdd_sample_out)
   \<and> columns kdd_sample_out ! 1 = ''src_bytes''
   \<and> rows kdd_sample_out ! 0 ! 1 = NumV 181 \<and> rows kdd_sample_out ! 1 ! 1 = NumV 1032"
proof -
  from kdd_projection_by_dtype [OF kdd_sample_schema kdd_sample_rectangular kdd_sample_typed]
  obtain out where out: "kdd_rule kdd_sample = Inr out"
    and filt: "filter (\<lambda>c. c \<noteq> ''is_anomaly'') (columns out) = select_dtypes_number kdd_sample"
    and absent: "''protocol_type'' \<in> set (columns out) \<longleftrightarrow> is_number (dtypes kdd_sample ! 1)"
      "''service'' \<in> set (columns out) \<longleftrightarrow> is_number (dtypes kdd_sample ! 2)"
      "''flag'' \<in> set (columns out) \<longleftrightarrow> is_number (dtypes kdd_sample ! 3)"
      "''label'' \<in> set (columns out) \<longleftrightarrow> is_number (dtypes kdd_sample ! 41)"
    and kept: "\<forall>k<length (columns out). \<forall>q<length column_names.
            columns out ! k = column_names ! q \<longrightarrow>
              dtypes out ! k = dtypes kdd_sample ! q
              \<and> (\<forall>i<length (rows kdd_sample). rows out ! i ! k = rows kdd_sample ! i ! q)"
    by blast
  from out have eq: "out = kdd_sample_out"
    unfolding kdd_rule_sample by simp
  have l: "(1::nat) < length (columns kdd_sample_out)" "(4::nat) < length column_names"
      "(0::nat) < length (rows kdd_sample)" "(1::nat) < length (rows kdd_sample)"
    by (simp_all add: kdd_sample_out_cells column_names_facts(2))
  from kept l(1,2) kdd_sample_kept(2)
  have c: "\<forall>i<length (rows kdd_sample). rows kdd_sample_out ! i ! 1 = rows kdd_sample ! i ! 4"
    unfolding eq by blast
  from c l(3) have c0: "rows kdd_sample_out ! 0 ! 1 = NumV 181"
    unfolding kdd_sample_kept(3) [symmetric] by blast
  from c l(4) have c1: "rows kdd_sample_out ! 1 ! 1 = NumV 1032"
    unfolding kdd_sample_kept(4) [symmetric] by blast
  have n: "columns kdd_sample_out ! 1 = ''src_bytes''"
    by code_simp
  from absent [unfolded eq kdd_sample_dtypes] filt [unfolded eq] c0 c1 n
    kdd_sample_schema kdd_sample_rectangular kdd_sample_typed kdd_rule_sample
  show ?thesis by blast
qed

text \<open>The two coded records: the \<open>label\<close> column is numeric and stays in the header.\<close>

theorem kdd_label_kept:
  "columns kdd_coded = column_names \<and> rectangular kdd_coded \<and> typed kdd_coded
   \<and> kdd_rule kdd_coded = Inr kdd_coded_out
   \<and> ''label'' \<in> set (columns kdd_coded_out)"
  using kdd_coded_facts by blast

end
